theory Spec2Isabelle
  imports Main
begin

section \<open>The Unity-Python UDP bridge (g1_bridge_server.py)\<close>

text \<open>
  The bridge receives UDP datagrams holding one JSON document each, checks the source
  host, learns the address to reply to, and starts one handler (\<open>process_command\<close>) per
  decoded document. The handler answers with one or more JSON responses.

  What is outside the repository is a parameter of the model: the UTF-8 decoder, the JSON
  parser, Python's \<open>str()\<close> of a value that is not a string, the clock, and whether
  \<open>print\<close>, \<open>json.dumps\<close> and the socket raise. The theorems hold for every choice
  of them.
\<close>

subsection \<open>Values\<close>

text \<open>
  What \<open>json.loads\<close> returns: \<open>None\<close>, a bool, an int, a float (left abstract as
  \<open>'f\<close>), a str, a list, or a dict. A dict is its list of items; a key is looked up
  with \<open>map_of\<close>.
\<close>

datatype 'f json =
    JNull
  | JBool bool
  | JInt int
  | JFloat 'f
  | JStr string
  | JArr "'f json list"
  | JObj "(string \<times> 'f json) list"

type_synonym 'f dict = "(string \<times> 'f json) list"

text \<open>\<open>d.get(key, default)\<close>\<close>

definition dict_get :: "'f dict \<Rightarrow> string \<Rightarrow> 'f json \<Rightarrow> 'f json" where
  "dict_get d key dflt = (case map_of d key of None \<Rightarrow> dflt | Some v \<Rightarrow> v)"

text \<open>An address as \<open>recvfrom\<close> returns it: \<open>(host, port)\<close>.\<close>

type_synonym endpoint = "string \<times> nat"

datatype exn =
    SocketTimeout
  | JSONDecodeError
  | UnicodeDecodeError
  | UnicodeEncodeError
  | AttributeError
  | OtherException

subsection \<open>The environment\<close>

record 'f env =
  py_str :: "'f json \<Rightarrow> string"
  now_isoformat :: string
  utf8_decode :: "string \<Rightarrow> string option"
  json_loads :: "string \<Rightarrow> exn + 'f json"
  print_raises :: "string \<Rightarrow> bool"
  dumps_raises :: "'f dict \<Rightarrow> bool"
  sendto_raises :: "'f dict \<Rightarrow> endpoint \<Rightarrow> bool"

text \<open>
  \<open>print_raises\<close> tells whether \<open>print\<close> raises on a text: \<open>UnicodeEncodeError\<close>,
  when \<open>sys.stdout\<close> cannot encode it. It is asked where the program prints a parsed
  string as it is, at line 62. The other prints write fixed text, addresses, exception
  messages and dicts, in which \<open>repr\<close> has escaped what cannot be printed; they are
  taken to succeed. \<open>dumps_raises\<close> tells whether \<open>json.dumps\<close> raises on a dict
  (\<open>RecursionError\<close> on deeply nested values), \<open>sendto_raises\<close> whether
  \<open>sock.sendto\<close> raises (\<open>OSError\<close>, as on a socket that \<open>stop\<close> has closed).
\<close>

text \<open>
  How an f-string renders a value: a str as itself, anything else through Python's
  \<open>str()\<close>, the parameter \<open>py_str\<close>.
\<close>

definition format_value :: "'f env \<Rightarrow> 'f json \<Rightarrow> string" where
  "format_value env v = (case v of JStr s \<Rightarrow> s | _ \<Rightarrow> py_str env v)"

subsection \<open>The bridge object\<close>

record bridge =
  listen_port :: nat
  pc_ip :: string
  pc_port :: "nat option"
  running :: bool
  unity_address :: "endpoint option"

text \<open>\<open>__init__\<close>: nothing is learned yet and the loop is not running.\<close>

definition init :: "string \<Rightarrow> nat \<Rightarrow> bridge" where
  "init ip port =
     \<lparr>listen_port = port, pc_ip = ip, pc_port = None, running = False,
      unity_address = None\<rparr>"

text \<open>
  A sent datagram: the dict that was serialised and the destination it went to.
  \<open>send_to_unity\<close> returns its boolean and the datagrams it sent. With no address
  stored it sends nothing. When \<open>json.dumps\<close> or \<open>sock.sendto\<close> raises, the
  \<open>except\<close> clause returns \<open>False\<close> and nothing was sent. \<open>process_command\<close>
  does not look at the boolean.
\<close>

type_synonym 'f sent = "'f dict \<times> endpoint"

definition send_to_unity :: "'f env \<Rightarrow> bridge \<Rightarrow> 'f dict \<Rightarrow> bool \<times> 'f sent list" where
  "send_to_unity env self message_dict =
     (case unity_address self of
        None \<Rightarrow> (False, [])
      | Some addr \<Rightarrow>
          if dumps_raises env message_dict then (False, [])
          else if sendto_raises env message_dict addr then (False, [])
          else (True, [(message_dict, addr)]))"

subsection \<open>process_command\<close>

definition cmd_type_of :: "'f dict \<Rightarrow> 'f json" where
  "cmd_type_of command_dict = dict_get command_dict ''command'' (JStr ''unknown'')"

definition ping_response :: "'f env \<Rightarrow> 'f dict" where
  "ping_response env =
     [(''status'', JStr ''success''),
      (''command'', JStr ''ping''),
      (''message'', JStr ''pong from robot controller''),
      (''timestamp'', JStr (now_isoformat env)),
      (''controller_ip'', JStr ''192.168.123.164''),
      (''robot_ip'', JStr ''192.168.123.161'')]"

definition echo_response :: "'f env \<Rightarrow> 'f dict \<Rightarrow> 'f dict" where
  "echo_response env command_dict =
     [(''status'', JStr ''success''),
      (''command'', JStr ''test_echo''),
      (''echo_data'', dict_get command_dict ''data'' (JStr '''')),
      (''message'', JStr (''Echoed from robot controller: '' @
         format_value env (dict_get command_dict ''data'' (JStr ''''))))]"

definition shake_acknowledged :: "'f dict" where
  "shake_acknowledged =
     [(''status'', JStr ''acknowledged''),
      (''command'', JStr ''shake_hand''),
      (''message'', JStr ''Handshake command received, preparing robot'')]"

definition shake_in_progress :: "'f dict" where
  "shake_in_progress =
     [(''status'', JStr ''in_progress''),
      (''command'', JStr ''shake_hand''),
      (''message'', JStr ''Robot hand extended, waiting for player'')]"

definition shake_completed :: "'f dict" where
  "shake_completed =
     [(''status'', JStr ''completed''),
      (''command'', JStr ''shake_hand''),
      (''message'', JStr ''Handshake completed, robot returning to idle'')]"

definition status_response :: "'f dict" where
  "status_response =
     [(''status'', JStr ''success''),
      (''command'', JStr ''get_status''),
      (''robot_status'', JStr ''idle''),
      (''connection'', JStr ''active''),
      (''controller_ip'', JStr ''192.168.123.164''),
      (''robot_ip'', JStr ''192.168.123.161''),
      (''message'', JStr ''Robot controller is ready'')]"

definition unknown_response :: "'f env \<Rightarrow> 'f json \<Rightarrow> 'f dict" where
  "unknown_response env cmd_type =
     [(''status'', JStr ''error''),
      (''command'', cmd_type),
      (''message'', JStr (''Unknown command: '' @ format_value env cmd_type))]"

text \<open>The text printed at line 62: a newline, the prefix, and the command.\<close>

definition processing_line :: "'f env \<Rightarrow> 'f json \<Rightarrow> string" where
  "processing_line env cmd_type =
     CHR 0x0A # ''[BRIDGE] Processing command: '' @ format_value env cmd_type"

text \<open>
  The handler. Its argument is whatever \<open>json.loads\<close> returned; only a dict has
  \<open>get\<close>, so anything else raises \<open>AttributeError\<close> at the first line. The
  \<open>print\<close> of the command at line 62 is outside any \<open>try\<close>: when it raises, the
  handler ends there. Both are before any send. The result is the list of datagrams
  sent, in the order they are sent; the sleeps between the three sends of
  \<open>shake_hand\<close> take time and change nothing else.
\<close>

definition process_command :: "'f env \<Rightarrow> bridge \<Rightarrow> 'f json \<Rightarrow> exn + 'f sent list" where
  "process_command env self command =
     (case command of
        JObj command_dict \<Rightarrow>
          (let cmd_type = cmd_type_of command_dict in
           if print_raises env (processing_line env cmd_type) then
             Inl UnicodeEncodeError
           else if cmd_type = JStr ''ping'' then
             Inr (snd (send_to_unity env self (ping_response env)))
           else if cmd_type = JStr ''test_echo'' then
             Inr (snd (send_to_unity env self (echo_response env command_dict)))
           else if cmd_type = JStr ''shake_hand'' then
             Inr (snd (send_to_unity env self shake_acknowledged) @
                  snd (send_to_unity env self shake_in_progress) @
                  snd (send_to_unity env self shake_completed))
           else if cmd_type = JStr ''get_status'' then
             Inr (snd (send_to_unity env self status_response))
           else
             Inr (snd (send_to_unity env self (unknown_response env cmd_type))))
      | _ \<Rightarrow> Inl AttributeError)"

subsection \<open>listen\<close>

text \<open>What one call of \<open>sock.recvfrom(4096)\<close> does.\<close>

datatype recv =
    Timeout
  | Datagram string endpoint
  | RecvError

text \<open>
  What one iteration of the loop ends with: a handler thread started on the decoded
  document, the warning about an unexpected source, or one of the three \<open>except\<close>
  clauses (the last prints only while \<open>running\<close>).
\<close>

datatype 'f outcome =
    Started "'f json"
  | UnexpectedIP string
  | TimedOut
  | DecodeErrorLogged
  | ErrorLogged
  | ErrorSilent

text \<open>
  The body of the \<open>try\<close>: the bridge as the body leaves it, and either the exception
  that left the body or what the body did. The address is stored before the payload is
  decoded, so it stays stored when decoding raises.
\<close>

definition listen_try :: "'f env \<Rightarrow> bridge \<Rightarrow> recv \<Rightarrow> bridge \<times> (exn + 'f outcome)" where
  "listen_try env self r =
     (case r of
        Timeout \<Rightarrow> (self, Inl SocketTimeout)
      | RecvError \<Rightarrow> (self, Inl OtherException)
      | Datagram data address \<Rightarrow>
          if fst address = pc_ip self then
            (let self' = (if unity_address self = None
                          then self\<lparr>unity_address := Some address\<rparr> else self) in
             case utf8_decode env data of
               None \<Rightarrow> (self', Inl UnicodeDecodeError)
             | Some message \<Rightarrow>
                 (case json_loads env message of
                    Inl e \<Rightarrow> (self', Inl e)
                  | Inr command_dict \<Rightarrow> (self', Inr (Started command_dict))))
          else (self, Inr (UnexpectedIP (fst address))))"

text \<open>The \<open>except\<close> clauses, in the order they are tried.\<close>

definition listen_step :: "'f env \<Rightarrow> bridge \<Rightarrow> recv \<Rightarrow> bridge \<times> 'f outcome" where
  "listen_step env self r =
     (case listen_try env self r of
        (self', Inr out) \<Rightarrow> (self', out)
      | (self', Inl SocketTimeout) \<Rightarrow> (self', TimedOut)
      | (self', Inl JSONDecodeError) \<Rightarrow> (self', DecodeErrorLogged)
      | (self', Inl _) \<Rightarrow> (self', if running self' then ErrorLogged else ErrorSilent))"

text \<open>\<open>stop\<close>, called from the main thread.\<close>

definition stop :: "bridge \<Rightarrow> bridge" where
  "stop self = self\<lparr>running := False\<rparr>"

text \<open>
  The loop over a finite run of events: a \<open>recvfrom\<close> of the loop, or \<open>stop\<close> called
  by the main thread between two iterations. The loop ends when \<open>running\<close> is false.
\<close>

datatype event = Recv recv | Stop

fun listen_loop :: "'f env \<Rightarrow> bridge \<Rightarrow> event list \<Rightarrow> bridge \<times> 'f outcome list" where
  "listen_loop env self [] = (self, [])"
| "listen_loop env self (e # es) =
     (if running self then
        (case e of
           Stop \<Rightarrow> listen_loop env (stop self) es
         | Recv r \<Rightarrow>
             (let (self', out) = listen_step env self r;
                  (self'', outs) = listen_loop env self' es
              in (self'', out # outs)))
      else (self, []))"

definition listen :: "'f env \<Rightarrow> bridge \<Rightarrow> event list \<Rightarrow> bridge \<times> 'f outcome list" where
  "listen env self es = listen_loop env (self\<lparr>running := True\<rparr>) es"

text \<open>
  The datagrams sent in answer to one received datagram: those of the handler the
  iteration started, run on the bridge as the iteration left it. A handler that raises
  does so before its first send.
\<close>

definition responses :: "'f env \<Rightarrow> bridge \<Rightarrow> recv \<Rightarrow> 'f sent list" where
  "responses env self r =
     (case listen_step env self r of
        (self', Started command) \<Rightarrow>
          (case process_command env self' command of Inr out \<Rightarrow> out | Inl _ \<Rightarrow> [])
      | _ \<Rightarrow> [])"

subsection \<open>A sample environment\<close>

text \<open>
  A concrete environment to run the model on. A str is kept as its UTF-8 bytes, and a
  lone surrogate, which UTF-8 proper cannot hold, as the three bytes \<open>0xED\<close>,
  \<open>0xA0..0xBF\<close>, \<open>0x80..0xBF\<close>. The payloads are ASCII, so they decode to themselves;
  \<open>sample_texts\<close> lists a few JSON texts with the value \<open>json.loads\<close> returns for
  each, and every other text is rejected. The output stream is UTF-8 with strict error
  handling: \<open>print\<close> raises exactly on a text that holds a surrogate. \<open>json.dumps\<close>
  and the socket do not raise.
\<close>

definition surrogate :: string where
  "surrogate = [CHR 0xED, CHR 0xA0, CHR 0x80]"

text \<open>The 21 bytes \<^verbatim>\<open>{"command": "\ud800"}\<close>.\<close>

definition surrogate_text :: string where
  \<open>surrogate_text = ''{"command": "'' @ CHR 0x5C # ''ud800"}''\<close>

fun holds_surrogate :: "string \<Rightarrow> bool" where
  "holds_surrogate (a # b # cs) =
     ((a = CHR 0xED \<and> (160 :: nat) \<le> of_char b) \<or> holds_surrogate (b # cs))"
| "holds_surrogate [a] = False"
| "holds_surrogate [] = False"

definition sample_texts :: "(string \<times> unit json) list" where
  \<open>sample_texts =
     [(''{"command": "ping"}'', JObj [(''command'', JStr ''ping'')]),
      (''{"command": "test_echo", "data": "hello"}'',
         JObj [(''command'', JStr ''test_echo''), (''data'', JStr ''hello'')]),
      (''{"command": "test_echo"}'', JObj [(''command'', JStr ''test_echo'')]),
      (''{"command": "shake_hand"}'', JObj [(''command'', JStr ''shake_hand'')]),
      (''{"command": "get_status"}'', JObj [(''command'', JStr ''get_status'')]),
      (''{"command": "dance"}'', JObj [(''command'', JStr ''dance'')]),
      (surrogate_text, JObj [(''command'', JStr surrogate)]),
      (''{}'', JObj [])]\<close>

definition sample_env :: "unit env" where
  "sample_env =
     \<lparr>py_str = (\<lambda>v. case v of JNull \<Rightarrow> ''None'' | _ \<Rightarrow> []),
      now_isoformat = ''2025-01-01T12:00:00'',
      utf8_decode = Some,
      json_loads = (\<lambda>s. case map_of sample_texts s of
                           None \<Rightarrow> Inl JSONDecodeError | Some v \<Rightarrow> Inr v),
      print_raises = holds_surrogate,
      dumps_raises = (\<lambda>m. False),
      sendto_raises = (\<lambda>m a. False)\<rparr>"

text \<open>The same with the socket closed, as \<open>stop\<close> leaves it: every \<open>sendto\<close> raises.\<close>

definition closed_env :: "unit env" where
  "closed_env = sample_env\<lparr>sendto_raises := (\<lambda>m a. True)\<rparr>"

text \<open>The bridge as \<open>main\<close> creates it in the documented setup, and its peer.\<close>

definition sample_bridge :: bridge where
  "sample_bridge = init ''192.168.123.162'' 5005"

definition unity :: endpoint where
  "unity = (''192.168.123.162'', 50000)"

section \<open>Properties\<close>

subsection \<open>One iteration of the loop\<close>

lemma listen_step_address:
  "unity_address (fst (listen_step env self r)) =
     (case r of
        Datagram data address \<Rightarrow>
          if fst address = pc_ip self \<and> unity_address self = None
          then Some address else unity_address self
      | _ \<Rightarrow> unity_address self)"
  by (auto simp: listen_step_def listen_try_def Let_def
      split: recv.splits option.splits sum.splits exn.splits)


lemma listen_step_started:
  assumes "listen_step env self r = (self', Started command)"
  shows "\<exists>data address message. r = Datagram data address \<and> fst address = pc_ip self \<and>
           utf8_decode env data = Some message \<and> json_loads env message = Inr command \<and>
           unity_address self' =
             Some (case unity_address self of None \<Rightarrow> address | Some a \<Rightarrow> a)"
  using assms
  by (auto simp: listen_step_def listen_try_def Let_def
      split: recv.splits option.splits sum.splits exn.splits if_splits)


lemma listen_step_undecodable:
  assumes "\<forall>message. utf8_decode env data = Some message \<longrightarrow>
             (\<exists>e. json_loads env message = Inl e)"
  shows "snd (listen_step env self (Datagram data address)) \<in>
           {UnexpectedIP (fst address), TimedOut, DecodeErrorLogged, ErrorLogged, ErrorSilent}"
proof (cases "utf8_decode env data")
  case None
  then show ?thesis
    by (simp add: listen_step_def listen_try_def Let_def)
next
  case (Some message)
  with assms obtain e where "json_loads env message = Inl e" by blast
  with Some show ?thesis
    by (cases e) (simp_all add: listen_step_def listen_try_def Let_def)
qed

text \<open>
  Once an address is stored the loop never stores another one, so a handler reads
  the same address whenever it runs.
\<close>

lemma listen_loop_keeps_address:
  "unity_address self = Some a \<Longrightarrow> unity_address (fst (listen_loop env self es)) = Some a"
proof (induction es arbitrary: self)
  case Nil
  then show ?case by simp
next
  case (Cons e es)
  show ?case
  proof (cases "running self")
    case False
    with Cons.prems show ?thesis by simp
  next
    case True
    show ?thesis
    proof (cases e)
      case Stop
      have "unity_address (stop self) = Some a" using Cons.prems by (simp add: stop_def)
      from Cons.IH [OF this] True Stop show ?thesis by simp
    next
      case (Recv r)
      obtain self' out where st: "listen_step env self r = (self', out)" by force
      have "unity_address self' = Some a"
        using listen_step_address [of env self r] st Cons.prems
        by (auto split: recv.splits)
      from Cons.IH [OF this] True Recv st show ?thesis
        by (cases "listen_loop env self' es") simp
    qed
  qed
qed

subsection \<open>The handler\<close>

lemma send_to_unity_learned:
  assumes "unity_address self = Some addr"
    and "\<not> dumps_raises env m" and "\<not> sendto_raises env m addr"
  shows "snd (send_to_unity env self m) = [(m, addr)]"
  using assms by (simp add: send_to_unity_def)

lemma send_to_unity_unset:
  "unity_address self = None \<Longrightarrow> send_to_unity env self m = (False, [])"
  by (simp add: send_to_unity_def)

text \<open>The \<open>except\<close> clause of \<open>send_to_unity\<close>: a send that raises sends nothing.\<close>

lemma send_to_unity_raises:
  assumes "dumps_raises env m \<or> (\<exists>addr. unity_address self = Some addr \<and> sendto_raises env m addr)"
  shows "send_to_unity env self m = (False, [])"
  using assms by (auto simp: send_to_unity_def split: option.splits)

lemma send_to_unity_sent:
  "x \<in> set (snd (send_to_unity env self m)) \<Longrightarrow> fst x = m"
  by (auto simp: send_to_unity_def split: option.splits if_splits)

text \<open>
  Called on a bridge that has learned no address, the handler sends nothing. The loop
  never does that: it stores the address before it starts a handler.
\<close>

lemma process_command_unset:
  assumes "unity_address self = None"
  shows "process_command env self (JObj d) = Inr [] \<or>
         process_command env self (JObj d) = Inl UnicodeEncodeError"
  using assms by (simp add: process_command_def send_to_unity_unset Let_def)

text \<open>When the print at line 62 raises, the handler ends before any send.\<close>

lemma process_command_print_raises:
  assumes "print_raises env (processing_line env (cmd_type_of d))"
  shows "process_command env self (JObj d) = Inl UnicodeEncodeError"
  using assms by (simp add: process_command_def Let_def)

lemma cmd_type_of_field:
  "map_of d ''command'' = Some c \<Longrightarrow> cmd_type_of d = c"
  by (simp add: cmd_type_of_def dict_get_def)


lemma process_command_ping:
  assumes "unity_address self = Some addr" "map_of d ''command'' = Some (JStr ''ping'')"
    and "\<not> print_raises env (processing_line env (JStr ''ping''))"
    and "\<not> dumps_raises env (ping_response env)"
    and "\<not> sendto_raises env (ping_response env) addr"
  shows "process_command env self (JObj d) = Inr [(ping_response env, addr)]"
  using assms by (simp add: process_command_def cmd_type_of_field send_to_unity_learned)

lemma process_command_test_echo:
  assumes "unity_address self = Some addr" "map_of d ''command'' = Some (JStr ''test_echo'')"
    and "\<not> print_raises env (processing_line env (JStr ''test_echo''))"
    and "\<not> dumps_raises env (echo_response env d)"
    and "\<not> sendto_raises env (echo_response env d) addr"
  shows "process_command env self (JObj d) = Inr [(echo_response env d, addr)]"
  using assms by (simp add: process_command_def cmd_type_of_field send_to_unity_learned)

lemma process_command_shake_hand:
  assumes "unity_address self = Some addr" "map_of d ''command'' = Some (JStr ''shake_hand'')"
    and "\<not> print_raises env (processing_line env (JStr ''shake_hand''))"
    and "\<forall>m \<in> {shake_acknowledged, shake_in_progress, shake_completed}.
           \<not> dumps_raises env m \<and> \<not> sendto_raises env m addr"
  shows "process_command env self (JObj d) =
           Inr [(shake_acknowledged, addr), (shake_in_progress, addr), (shake_completed, addr)]"
  using assms by (simp add: process_command_def cmd_type_of_field send_to_unity_learned)

lemma process_command_unknown:
  assumes "unity_address self = Some addr"
    and "cmd_type_of d \<notin> {JStr ''ping'', JStr ''test_echo'', JStr ''shake_hand'', JStr ''get_status''}"
    and "\<not> print_raises env (processing_line env (cmd_type_of d))"
    and "\<not> dumps_raises env (unknown_response env (cmd_type_of d))"
    and "\<not> sendto_raises env (unknown_response env (cmd_type_of d)) addr"
  shows "process_command env self (JObj d) = Inr [(unknown_response env (cmd_type_of d), addr)]"
  using assms by (simp add: process_command_def send_to_unity_learned Let_def)

lemma responses_started:
  assumes "listen_step env self r = (self', Started command)"
    and "process_command env self' command = Inr out"
  shows "responses env self r = out"
  using assms by (simp add: responses_def)

text \<open>What the sample stream prints: the line of each sample command but the last.\<close>

lemma sample_print:
  "\<not> holds_surrogate (processing_line sample_env (JStr ''ping''))"
  "\<not> holds_surrogate (processing_line sample_env (JStr ''test_echo''))"
  "\<not> holds_surrogate (processing_line sample_env (JStr ''shake_hand''))"
  "\<not> holds_surrogate (processing_line sample_env (JStr ''get_status''))"
  "\<not> holds_surrogate (processing_line sample_env (JStr ''dance''))"
  "\<not> holds_surrogate (processing_line sample_env (JStr ''unknown''))"
  "holds_surrogate (processing_line sample_env (JStr surrogate))"
  by (simp_all add: processing_line_def format_value_def surrogate_def)

subsection \<open>Claims about the handler\<close>

text \<open>
  C1. A \<open>shake_hand\<close> envelope that the loop hands to \<open>process_command\<close>, in an
  invocation that does not fail (the print of the command and the three sends do not
  raise), is answered with exactly three datagrams, in this order: status
  \<open>acknowledged\<close>, then \<open>in_progress\<close>, then \<open>completed\<close>, each with command
  \<open>shake_hand\<close>.
\<close>

theorem shake_hand_three_responses:
  assumes "listen_step env self r = (self', Started (JObj command_dict))"
    and "map_of command_dict ''command'' = Some (JStr ''shake_hand'')"
    and "\<not> print_raises env (processing_line env (JStr ''shake_hand''))"
    and "\<forall>m \<in> {shake_acknowledged, shake_in_progress, shake_completed}.
           \<not> dumps_raises env m \<and> \<not> sendto_raises env m (the (unity_address self'))"
  shows "\<exists>addr out. unity_address self' = Some addr \<and>
           process_command env self' (JObj command_dict) = Inr out \<and>
           responses env self r = out \<and>
           out = [(shake_acknowledged, addr), (shake_in_progress, addr), (shake_completed, addr)] \<and>
           map (\<lambda>(m, a). (map_of m ''status'', map_of m ''command'')) out =
             [(Some (JStr ''acknowledged''), Some (JStr ''shake_hand'')),
              (Some (JStr ''in_progress''), Some (JStr ''shake_hand'')),
              (Some (JStr ''completed''), Some (JStr ''shake_hand''))]"
proof -
  from listen_step_started [OF assms(1)]
  obtain addr where a: "unity_address self' = Some addr" by blast
  from assms(4) a
  have ok: "\<forall>m \<in> {shake_acknowledged, shake_in_progress, shake_completed}.
              \<not> dumps_raises env m \<and> \<not> sendto_raises env m addr"
    by simp
  note p = process_command_shake_hand [OF a assms(2,3) ok]
  have "map (\<lambda>(m, a). (map_of m ''status'', map_of m ''command''))
          [(shake_acknowledged :: 'a dict, addr), (shake_in_progress, addr), (shake_completed, addr)] =
        [(Some (JStr ''acknowledged''), Some (JStr ''shake_hand'')),
         (Some (JStr ''in_progress''), Some (JStr ''shake_hand'')),
         (Some (JStr ''completed''), Some (JStr ''shake_hand''))]"
    by (simp add: shake_acknowledged_def shake_in_progress_def shake_completed_def)
  with a p responses_started [OF assms(1) p] show ?thesis by simp
qed

theorem shake_hand_three_responses_witness:
  \<open>listen_step sample_env sample_bridge (Datagram ''{"command": "shake_hand"}'' unity) =
     (sample_bridge\<lparr>unity_address := Some unity\<rparr>, Started (JObj [(''command'', JStr ''shake_hand'')])) \<and>
   responses sample_env sample_bridge (Datagram ''{"command": "shake_hand"}'' unity) =
     [(shake_acknowledged, unity), (shake_in_progress, unity), (shake_completed, unity)]\<close>
proof -
  have h: \<open>listen_step sample_env sample_bridge (Datagram ''{"command": "shake_hand"}'' unity) =
     (sample_bridge\<lparr>unity_address := Some unity\<rparr>, Started (JObj [(''command'', JStr ''shake_hand'')]))\<close>
    by (simp add: listen_step_def listen_try_def sample_env_def sample_texts_def
        sample_bridge_def init_def unity_def)
  have c: "map_of [(''command'', JStr ''shake_hand'' :: unit json)] ''command'' = Some (JStr ''shake_hand'')"
    by simp
  have p: "\<not> print_raises sample_env (processing_line sample_env (JStr ''shake_hand''))"
    using sample_print(3) by (simp add: sample_env_def)
  have s: "\<forall>m \<in> {shake_acknowledged, shake_in_progress, shake_completed}.
             \<not> dumps_raises sample_env m \<and>
             \<not> sendto_raises sample_env m (the (unity_address (sample_bridge\<lparr>unity_address := Some unity\<rparr>)))"
    by (simp add: sample_env_def)
  from shake_hand_three_responses [OF h c p s] h show ?thesis by auto
qed

text \<open>
  C2, as stated, fails: with the socket closed, a \<open>test_echo\<close> envelope from the
  peer is handed to \<open>process_command\<close>, \<open>sendto\<close> raises, the \<open>except\<close> clause of
  \<open>send_to_unity\<close> catches it, and no response is sent.
\<close>

theorem test_echo_counterexample:
  \<open>listen_step closed_env sample_bridge
      (Datagram ''{"command": "test_echo", "data": "hello"}'' unity) =
     (sample_bridge\<lparr>unity_address := Some unity\<rparr>,
      Started (JObj [(''command'', JStr ''test_echo''), (''data'', JStr ''hello'')])) \<and>
   responses closed_env sample_bridge
      (Datagram ''{"command": "test_echo", "data": "hello"}'' unity) = []\<close>
  by (simp add: responses_def listen_step_def listen_try_def closed_env_def sample_env_def
      sample_texts_def sample_bridge_def init_def unity_def process_command_def
      cmd_type_of_def dict_get_def send_to_unity_def processing_line_def format_value_def
      Let_def)

text \<open>
  C2, amended. A \<open>test_echo\<close> envelope that the loop hands to \<open>process_command\<close>,
  handled without an exception (the print of the command, \<open>json.dumps\<close> of the
  response and \<open>sendto\<close> do not raise), is answered with exactly one datagram, whose
  \<open>echo_data\<close> is the envelope's \<open>data\<close> value unchanged, and the empty string when
  the envelope has no \<open>data\<close>.
\<close>

theorem test_echo_round_trip:
  assumes "listen_step env self r = (self', Started (JObj command_dict))"
    and "map_of command_dict ''command'' = Some (JStr ''test_echo'')"
    and "\<not> print_raises env (processing_line env (JStr ''test_echo''))"
    and "\<not> dumps_raises env (echo_response env command_dict)"
    and "\<not> sendto_raises env (echo_response env command_dict) (the (unity_address self'))"
  shows "\<exists>addr m. unity_address self' = Some addr \<and>
           process_command env self' (JObj command_dict) = Inr [(m, addr)] \<and>
           responses env self r = [(m, addr)] \<and>
           map_of m ''echo_data'' =
             Some (case map_of command_dict ''data'' of None \<Rightarrow> JStr '''' | Some x \<Rightarrow> x)"
proof -
  from listen_step_started [OF assms(1)]
  obtain addr where a: "unity_address self' = Some addr" by blast
  from assms(5) a have s: "\<not> sendto_raises env (echo_response env command_dict) addr"
    by simp
  note p = process_command_test_echo [OF a assms(2,3,4) s]
  have "map_of (echo_response env command_dict) ''echo_data'' =
          Some (case map_of command_dict ''data'' of None \<Rightarrow> JStr '''' | Some x \<Rightarrow> x)"
    by (simp add: echo_response_def dict_get_def)
  with a p responses_started [OF assms(1) p] show ?thesis by simp
qed

theorem test_echo_round_trip_witness:
  \<open>responses sample_env sample_bridge
      (Datagram ''{"command": "test_echo", "data": "hello"}'' unity) =
     [([(''status'', JStr ''success''), (''command'', JStr ''test_echo''),
        (''echo_data'', JStr ''hello''),
        (''message'', JStr ''Echoed from robot controller: hello'')], unity)] \<and>
   (\<exists>m. responses sample_env sample_bridge (Datagram ''{"command": "test_echo"}'' unity) =
          [(m, unity)] \<and> map_of m ''echo_data'' = Some (JStr ''''))\<close>
proof -
  have h1: \<open>listen_step sample_env sample_bridge
               (Datagram ''{"command": "test_echo", "data": "hello"}'' unity) =
             (sample_bridge\<lparr>unity_address := Some unity\<rparr>,
              Started (JObj [(''command'', JStr ''test_echo''), (''data'', JStr ''hello'')]))\<close>
    by (simp add: listen_step_def listen_try_def sample_env_def sample_texts_def
        sample_bridge_def init_def unity_def)
  have c1: "map_of [(''command'', JStr ''test_echo''), (''data'', JStr ''hello'' :: unit json)]
              ''command'' = Some (JStr ''test_echo'')"
    by simp
  have h2: \<open>listen_step sample_env sample_bridge (Datagram ''{"command": "test_echo"}'' unity) =
             (sample_bridge\<lparr>unity_address := Some unity\<rparr>,
              Started (JObj [(''command'', JStr ''test_echo'')]))\<close>
    by (simp add: listen_step_def listen_try_def sample_env_def sample_texts_def
        sample_bridge_def init_def unity_def)
  have c2: "map_of [(''command'', JStr ''test_echo'' :: unit json)] ''command'' =
              Some (JStr ''test_echo'')"
    by simp
  have pr: "\<not> print_raises sample_env (processing_line sample_env (JStr ''test_echo''))"
    using sample_print(2) by (simp add: sample_env_def)
  have d: "\<And>m. \<not> dumps_raises sample_env m"
    by (simp add: sample_env_def)
  have s: "\<And>m a. \<not> sendto_raises sample_env m a"
    by (simp add: sample_env_def)
  have e: "echo_response sample_env [(''command'', JStr ''test_echo''), (''data'', JStr ''hello'')] =
             [(''status'', JStr ''success''), (''command'', JStr ''test_echo''),
              (''echo_data'', JStr ''hello''),
              (''message'', JStr ''Echoed from robot controller: hello'')]"
    by (simp add: echo_response_def dict_get_def format_value_def)
  have p: "process_command sample_env (sample_bridge\<lparr>unity_address := Some unity\<rparr>)
             (JObj [(''command'', JStr ''test_echo''), (''data'', JStr ''hello'')]) =
           Inr [([(''status'', JStr ''success''), (''command'', JStr ''test_echo''),
                  (''echo_data'', JStr ''hello''),
                  (''message'', JStr ''Echoed from robot controller: hello'')], unity)]"
    using process_command_test_echo [OF _ c1 pr d s, of "sample_bridge\<lparr>unity_address := Some unity\<rparr>" unity]
    by (simp add: e)
  from test_echo_round_trip [OF h1 c1 pr d s] p
  have \<open>responses sample_env sample_bridge
      (Datagram ''{"command": "test_echo", "data": "hello"}'' unity) =
     [([(''status'', JStr ''success''), (''command'', JStr ''test_echo''),
        (''echo_data'', JStr ''hello''),
        (''message'', JStr ''Echoed from robot controller: hello'')], unity)]\<close>
    by auto
  moreover from test_echo_round_trip [OF h2 c2 pr d s]
  have \<open>\<exists>m. responses sample_env sample_bridge (Datagram ''{"command": "test_echo"}'' unity) =
          [(m, unity)] \<and> map_of m ''echo_data'' = Some (JStr '''')\<close>
    by auto
  ultimately show ?thesis by blast
qed

text \<open>
  C3, as stated, fails: with the socket closed, a \<open>ping\<close> envelope from the peer is
  handed to \<open>process_command\<close>, \<open>sendto\<close> raises, the \<open>except\<close> clause of
  \<open>send_to_unity\<close> catches it, and no response is sent.
\<close>

theorem ping_counterexample:
  \<open>listen_step closed_env sample_bridge (Datagram ''{"command": "ping"}'' unity) =
     (sample_bridge\<lparr>unity_address := Some unity\<rparr>,
      Started (JObj [(''command'', JStr ''ping'')])) \<and>
   responses closed_env sample_bridge (Datagram ''{"command": "ping"}'' unity) = []\<close>
  by (simp add: responses_def listen_step_def listen_try_def closed_env_def sample_env_def
      sample_texts_def sample_bridge_def init_def unity_def process_command_def
      cmd_type_of_def dict_get_def send_to_unity_def processing_line_def format_value_def
      Let_def)

text \<open>
  C3, amended. A \<open>ping\<close> envelope that the loop hands to \<open>process_command\<close>, handled
  without an exception (the print of the command, \<open>json.dumps\<close> of the response and
  \<open>sendto\<close> do not raise), is answered with exactly one datagram, with status
  \<open>success\<close> and command \<open>ping\<close>.
\<close>

theorem ping_one_success:
  assumes "listen_step env self r = (self', Started (JObj command_dict))"
    and "map_of command_dict ''command'' = Some (JStr ''ping'')"
    and "\<not> print_raises env (processing_line env (JStr ''ping''))"
    and "\<not> dumps_raises env (ping_response env)"
    and "\<not> sendto_raises env (ping_response env) (the (unity_address self'))"
  shows "\<exists>addr m. unity_address self' = Some addr \<and>
           process_command env self' (JObj command_dict) = Inr [(m, addr)] \<and>
           responses env self r = [(m, addr)] \<and>
           map_of m ''status'' = Some (JStr ''success'') \<and>
           map_of m ''command'' = Some (JStr ''ping'')"
proof -
  from listen_step_started [OF assms(1)]
  obtain addr where a: "unity_address self' = Some addr" by blast
  from assms(5) a have s: "\<not> sendto_raises env (ping_response env) addr"
    by simp
  note p = process_command_ping [OF a assms(2,3,4) s]
  have "map_of (ping_response env) ''status'' = Some (JStr ''success'') \<and>
        map_of (ping_response env) ''command'' = Some (JStr ''ping'')"
    by (simp add: ping_response_def)
  with a p responses_started [OF assms(1) p] show ?thesis by simp
qed

theorem ping_one_success_witness:
  \<open>\<exists>m. responses sample_env sample_bridge (Datagram ''{"command": "ping"}'' unity) =
          [(m, unity)] \<and>
        map_of m ''status'' = Some (JStr ''success'') \<and>
        map_of m ''command'' = Some (JStr ''ping'')\<close>
proof -
  have h: \<open>listen_step sample_env sample_bridge (Datagram ''{"command": "ping"}'' unity) =
            (sample_bridge\<lparr>unity_address := Some unity\<rparr>,
             Started (JObj [(''command'', JStr ''ping'')]))\<close>
    by (simp add: listen_step_def listen_try_def sample_env_def sample_texts_def
        sample_bridge_def init_def unity_def)
  have c: "map_of [(''command'', JStr ''ping'' :: unit json)] ''command'' = Some (JStr ''ping'')"
    by simp
  have pr: "\<not> print_raises sample_env (processing_line sample_env (JStr ''ping''))"
    using sample_print(1) by (simp add: sample_env_def)
  have d: "\<And>m. \<not> dumps_raises sample_env m"
    by (simp add: sample_env_def)
  have s: "\<And>m a. \<not> sendto_raises sample_env m a"
    by (simp add: sample_env_def)
  from ping_one_success [OF h c pr d s] show ?thesis by auto
qed

text \<open>
  C4, as stated, fails. With the socket closed, the unknown command \<open>dance\<close> gets no
  response: \<open>sendto\<close> raises and \<open>send_to_unity\<close> catches it. And the command that
  is one lone surrogate gets none on a working socket: the print at line 62 raises
  \<open>UnicodeEncodeError\<close> and the handler ends before the send.
\<close>

theorem unknown_command_counterexample:
  \<open>responses closed_env sample_bridge (Datagram ''{"command": "dance"}'' unity) = [] \<and>
   listen_step sample_env sample_bridge (Datagram surrogate_text unity) =
     (sample_bridge\<lparr>unity_address := Some unity\<rparr>,
      Started (JObj [(''command'', JStr surrogate)])) \<and>
   process_command sample_env (sample_bridge\<lparr>unity_address := Some unity\<rparr>)
     (JObj [(''command'', JStr surrogate)]) = Inl UnicodeEncodeError \<and>
   responses sample_env sample_bridge (Datagram surrogate_text unity) = []\<close>
proof -
  have 1: \<open>responses closed_env sample_bridge (Datagram ''{"command": "dance"}'' unity) = []\<close>
    by (simp add: responses_def listen_step_def listen_try_def closed_env_def sample_env_def
        sample_texts_def sample_bridge_def init_def unity_def process_command_def
        cmd_type_of_def dict_get_def send_to_unity_def processing_line_def format_value_def
        surrogate_text_def Let_def)
  have 2: "listen_step sample_env sample_bridge (Datagram surrogate_text unity) =
             (sample_bridge\<lparr>unity_address := Some unity\<rparr>,
              Started (JObj [(''command'', JStr surrogate)]))"
    by (simp add: listen_step_def listen_try_def sample_env_def sample_texts_def
        sample_bridge_def init_def unity_def surrogate_text_def)
  have "print_raises sample_env
          (processing_line sample_env (cmd_type_of [(''command'', JStr surrogate :: unit json)]))"
    using sample_print(7) by (simp add: sample_env_def cmd_type_of_def dict_get_def)
  then have 3: "process_command sample_env (sample_bridge\<lparr>unity_address := Some unity\<rparr>)
                  (JObj [(''command'', JStr surrogate)]) = Inl UnicodeEncodeError"
    by (rule process_command_print_raises)
  from 2 3 have 4: "responses sample_env sample_bridge (Datagram surrogate_text unity) = []"
    by (simp add: responses_def)
  from 1 2 3 4 show ?thesis by blast
qed

text \<open>
  C4, amended. An envelope whose command is a string other than \<open>ping\<close>,
  \<open>test_echo\<close>, \<open>get_status\<close> and \<open>shake_hand\<close>, handed to \<open>process_command\<close> by the
  loop and handled without an exception (the print of the command, \<open>json.dumps\<close> of
  the response and \<open>sendto\<close> do not raise), is answered with exactly one datagram:
  status \<open>error\<close>, the command echoed, and the message \<open>Unknown command: \<close> followed by
  the command string.
\<close>

theorem unknown_command_one_error:
  assumes "listen_step env self r = (self', Started (JObj command_dict))"
    and "map_of command_dict ''command'' = Some (JStr c)"
    and "c \<notin> {''ping'', ''test_echo'', ''get_status'', ''shake_hand''}"
    and "\<not> print_raises env (processing_line env (JStr c))"
    and "\<not> dumps_raises env (unknown_response env (JStr c))"
    and "\<not> sendto_raises env (unknown_response env (JStr c)) (the (unity_address self'))"
  shows "\<exists>addr m. unity_address self' = Some addr \<and>
           process_command env self' (JObj command_dict) = Inr [(m, addr)] \<and>
           responses env self r = [(m, addr)] \<and>
           map_of m ''status'' = Some (JStr ''error'') \<and>
           map_of m ''command'' = Some (JStr c) \<and>
           map_of m ''message'' = Some (JStr (''Unknown command: '' @ c))"
proof -
  from listen_step_started [OF assms(1)]
  obtain addr where a: "unity_address self' = Some addr" by blast
  have t: "cmd_type_of command_dict = JStr c"
    by (rule cmd_type_of_field [OF assms(2)])
  have n: "cmd_type_of command_dict \<notin>
          {JStr ''ping'', JStr ''test_echo'', JStr ''shake_hand'', JStr ''get_status''}"
    using assms(3) by (simp add: t)
  have pr: "\<not> print_raises env (processing_line env (cmd_type_of command_dict))"
    using assms(4) by (simp add: t)
  have d: "\<not> dumps_raises env (unknown_response env (cmd_type_of command_dict))"
    using assms(5) by (simp add: t)
  have s: "\<not> sendto_raises env (unknown_response env (cmd_type_of command_dict)) addr"
    using assms(6) a by (simp add: t)
  note p = process_command_unknown [OF a n pr d s]
  have "map_of (unknown_response env (JStr c)) ''status'' = Some (JStr ''error'') \<and>
        map_of (unknown_response env (JStr c)) ''command'' = Some (JStr c) \<and>
        map_of (unknown_response env (JStr c)) ''message'' =
          Some (JStr (''Unknown command: '' @ c))"
    by (simp add: unknown_response_def format_value_def)
  with a p responses_started [OF assms(1) p] show ?thesis by (simp add: t)
qed

theorem unknown_command_one_error_witness:
  \<open>responses sample_env sample_bridge (Datagram ''{"command": "dance"}'' unity) =
     [([(''status'', JStr ''error''), (''command'', JStr ''dance''),
        (''message'', JStr ''Unknown command: dance'')], unity)]\<close>
proof -
  have h: \<open>listen_step sample_env sample_bridge (Datagram ''{"command": "dance"}'' unity) =
            (sample_bridge\<lparr>unity_address := Some unity\<rparr>,
             Started (JObj [(''command'', JStr ''dance'')]))\<close>
    by (simp add: listen_step_def listen_try_def sample_env_def sample_texts_def
        sample_bridge_def init_def unity_def surrogate_text_def)
  have c: "map_of [(''command'', JStr ''dance'' :: unit json)] ''command'' = Some (JStr ''dance'')"
    by simp
  have n: "''dance'' \<notin> {''ping'', ''test_echo'', ''get_status'', ''shake_hand''}"
    by simp
  have pr: "\<not> print_raises sample_env (processing_line sample_env (JStr ''dance''))"
    using sample_print(5) by (simp add: sample_env_def)
  have d: "\<And>m. \<not> dumps_raises sample_env m"
    by (simp add: sample_env_def)
  have s: "\<And>m a. \<not> sendto_raises sample_env m a"
    by (simp add: sample_env_def)
  have u: "unknown_response sample_env (JStr ''dance'') =
             [(''status'', JStr ''error''), (''command'', JStr ''dance''),
              (''message'', JStr ''Unknown command: dance'')]"
    by (simp add: unknown_response_def format_value_def)
  have "cmd_type_of [(''command'', JStr ''dance'' :: unit json)] = JStr ''dance''"
    by (simp add: cmd_type_of_def dict_get_def)
  with process_command_unknown [of "sample_bridge\<lparr>unity_address := Some unity\<rparr>" unity
      "[(''command'', JStr ''dance'')]" sample_env] pr d s u
  have p: "process_command sample_env (sample_bridge\<lparr>unity_address := Some unity\<rparr>)
             (JObj [(''command'', JStr ''dance'')]) =
           Inr [([(''status'', JStr ''error''), (''command'', JStr ''dance''),
                  (''message'', JStr ''Unknown command: dance'')], unity)]"
    by simp
  from unknown_command_one_error [OF h c n pr d s] p show ?thesis by auto
qed

text \<open>
  C9. Every datagram \<open>process_command\<close> sends, whatever it is given, has a \<open>status\<close>
  that is one of \<open>success\<close>, \<open>error\<close>, \<open>acknowledged\<close>, \<open>in_progress\<close>,
  \<open>completed\<close>, and a \<open>command\<close> equal to the command the handler read from the
  envelope (line 60: the envelope's \<open>command\<close>, or \<open>unknown\<close> when it has none).
\<close>

theorem response_envelope_shape:
  assumes "process_command env self command = Inr out"
    and "(m, addr) \<in> set out"
  shows "\<exists>command_dict. command = JObj command_dict \<and>
           map_of m ''status'' \<in>
             {Some (JStr ''success''), Some (JStr ''error''), Some (JStr ''acknowledged''),
              Some (JStr ''in_progress''), Some (JStr ''completed'')} \<and>
           map_of m ''command'' = Some (cmd_type_of command_dict) \<and>
           map_of m ''command'' =
             Some (case map_of command_dict ''command'' of
                     None \<Rightarrow> JStr ''unknown'' | Some c \<Rightarrow> c)"
proof (cases command)
  case (JObj d)
  have g: "cmd_type_of d = (case map_of d ''command'' of None \<Rightarrow> JStr ''unknown'' | Some c \<Rightarrow> c)"
    by (simp add: cmd_type_of_def dict_get_def)
  have s: "\<And>x. (m, addr) \<in> set (snd (send_to_unity env self x)) \<Longrightarrow> m = x"
    using send_to_unity_sent by fastforce
  have "map_of m ''status'' \<in>
          {Some (JStr ''success''), Some (JStr ''error''), Some (JStr ''acknowledged''),
           Some (JStr ''in_progress''), Some (JStr ''completed'')} \<and>
        map_of m ''command'' = Some (cmd_type_of d)"
    using assms JObj
    by (auto simp: process_command_def Let_def ping_response_def echo_response_def
        shake_acknowledged_def shake_in_progress_def shake_completed_def status_response_def
        unknown_response_def split: if_splits dest!: s)
  with JObj g show ?thesis by simp
qed (use assms in \<open>simp_all add: process_command_def\<close>)

theorem response_envelope_shape_witness:
  "process_command sample_env (sample_bridge\<lparr>unity_address := Some unity\<rparr>)
     (JObj [(''command'', JStr ''get_status'')]) = Inr [(status_response, unity)] \<and>
   map_of (status_response :: unit dict) ''status'' \<in>
     {Some (JStr ''success''), Some (JStr ''error''), Some (JStr ''acknowledged''),
      Some (JStr ''in_progress''), Some (JStr ''completed'')} \<and>
   map_of (status_response :: unit dict) ''command'' = Some (JStr ''get_status'')"
proof -
  have "\<not> print_raises sample_env (processing_line sample_env (JStr ''get_status''))"
    using sample_print(4) by (simp add: sample_env_def)
  then have p: "process_command sample_env (sample_bridge\<lparr>unity_address := Some unity\<rparr>)
             (JObj [(''command'', JStr ''get_status'')]) = Inr [(status_response, unity)]"
    by (simp add: process_command_def cmd_type_of_def dict_get_def send_to_unity_def Let_def)
      (simp add: sample_env_def)
  have i: "(status_response, unity) \<in> set [(status_response :: unit dict, unity)]"
    by simp
  from response_envelope_shape [OF p i] p show ?thesis
    by (simp add: cmd_type_of_def dict_get_def)
qed

subsection \<open>Claims about the receive loop\<close>




text \<open>
  C6, as stated, fails: after a first datagram from port 50000 of the peer host, a
  second valid datagram from port 50001 of the same host leaves the reply address at
  port 50000.
\<close>

theorem overwrite_counterexample:
  \<open>unity_address (fst (listen sample_env sample_bridge
      [Recv (Datagram ''{"command": "ping"}'' (''192.168.123.162'', 50000)),
       Recv (Datagram ''{"command": "ping"}'' (''192.168.123.162'', 50001))])) =
     Some (''192.168.123.162'', 50000)\<close>
  by (simp add: listen_def listen_step_def listen_try_def sample_env_def sample_texts_def surrogate_text_def
      sample_bridge_def init_def Let_def)

text \<open>
  C6, amended. On a datagram whose source host equals the configured peer host, the
  reply address is set to the datagram's source only when no reply address is stored
  yet; a stored reply address is kept. So after such a datagram the reply address is the
  source of the first accepted datagram.
\<close>

theorem reply_endpoint_first_only:
  assumes "fst address = pc_ip self"
  shows "unity_address (fst (listen_step env self (Datagram data address))) =
           Some (case unity_address self of None \<Rightarrow> address | Some a \<Rightarrow> a)"
  using assms by (simp add: listen_step_address split: option.splits)

theorem reply_endpoint_first_only_witness:
  \<open>unity_address (fst (listen_step sample_env sample_bridge
      (Datagram ''{"command": "ping"}'' unity))) = Some unity \<and>
   unity_address (fst (listen_step sample_env (sample_bridge\<lparr>unity_address := Some unity\<rparr>)
      (Datagram ''{"command": "ping"}'' (''192.168.123.162'', 50001)))) = Some unity\<close>
proof -
  have h1: "fst unity = pc_ip sample_bridge"
    by (simp add: unity_def sample_bridge_def init_def)
  have h2: "fst (''192.168.123.162'', 50001 :: nat) =
              pc_ip (sample_bridge\<lparr>unity_address := Some unity\<rparr>)"
    by (simp add: sample_bridge_def init_def)
  from reply_endpoint_first_only [OF h1, of sample_env]
    reply_endpoint_first_only [OF h2, of sample_env]
  show ?thesis by (simp add: sample_bridge_def init_def)
qed

text \<open>
  C7. A datagram whose source host is not the configured peer host starts no handler,
  gets no response, and leaves the bridge, and so the reply address, as it was. And
  whatever one iteration receives, if it changes the reply address then it received a
  datagram from the configured peer host and the new reply address is its source.
\<close>

theorem unexpected_host_ignored:
  "(fst address \<noteq> pc_ip self \<longrightarrow>
      listen_step env self (Datagram data address) = (self, UnexpectedIP (fst address)) \<and>
      responses env self (Datagram data address) = []) \<and>
   (unity_address (fst (listen_step env self r)) \<noteq> unity_address self \<longrightarrow>
      (\<exists>data' address'. r = Datagram data' address' \<and> fst address' = pc_ip self \<and>
         unity_address (fst (listen_step env self r)) = Some address'))"
proof (intro conjI impI)
  assume h: "fst address \<noteq> pc_ip self"
  then show "listen_step env self (Datagram data address) = (self, UnexpectedIP (fst address))"
    by (simp add: listen_step_def listen_try_def)
  then show "responses env self (Datagram data address) = []"
    by (simp add: responses_def)
next
  assume "unity_address (fst (listen_step env self r)) \<noteq> unity_address self"
  then show "\<exists>data' address'. r = Datagram data' address' \<and> fst address' = pc_ip self \<and>
               unity_address (fst (listen_step env self r)) = Some address'"
    by (cases r) (auto simp: listen_step_address split: if_splits)
qed

theorem unexpected_host_ignored_witness:
  \<open>listen_step sample_env sample_bridge (Datagram ''{"command": "ping"}'' (''10.0.0.7'', 50000)) =
     (sample_bridge, UnexpectedIP ''10.0.0.7'') \<and>
   responses sample_env sample_bridge (Datagram ''{"command": "ping"}'' (''10.0.0.7'', 50000)) = [] \<and>
   unity_address (fst (listen_step sample_env sample_bridge
      (Datagram ''{"command": "ping"}'' unity))) = Some unity\<close>
proof -
  have h1: "fst (''10.0.0.7'', 50000 :: nat) \<noteq> pc_ip sample_bridge"
    by (simp add: sample_bridge_def init_def)
  have h2: \<open>unity_address (fst (listen_step sample_env sample_bridge
               (Datagram ''{"command": "ping"}'' unity))) \<noteq> unity_address sample_bridge\<close>
    by (simp add: listen_step_address) (simp add: sample_bridge_def init_def unity_def)
  from unexpected_host_ignored
    [of "(''10.0.0.7'', 50000)" sample_bridge sample_env \<open>''{"command": "ping"}''\<close>
        \<open>Datagram ''{"command": "ping"}'' unity\<close>]
    h1 h2
  show ?thesis by auto
qed



text \<open>
  C10. With no reply address stored, a datagram from the configured peer host whose
  payload cannot be decoded still sets the reply address to its source: the address is
  stored before the payload is decoded, and the exception leaves it stored.
\<close>

theorem malformed_datagram_sets_endpoint:
  assumes "unity_address self = None"
    and "fst address = pc_ip self"
    and "\<forall>message. utf8_decode env data = Some message \<longrightarrow>
           (\<exists>e. json_loads env message = Inl e)"
  shows "unity_address (fst (listen_step env self (Datagram data address))) = Some address \<and>
         snd (listen_step env self (Datagram data address)) \<in>
           {TimedOut, DecodeErrorLogged, ErrorLogged, ErrorSilent}"
proof -
  from listen_step_undecodable [OF assms(3), of self address]
  have "snd (listen_step env self (Datagram data address)) \<in>
          {UnexpectedIP (fst address), TimedOut, DecodeErrorLogged, ErrorLogged, ErrorSilent}" .
  moreover have "snd (listen_step env self (Datagram data address)) \<noteq> UnexpectedIP (fst address)"
    using assms(2)
    by (auto simp: listen_step_def listen_try_def Let_def
        split: option.splits sum.splits exn.splits)
  ultimately show ?thesis
    using assms(1,2) by (simp add: listen_step_address)
qed

theorem malformed_datagram_sets_endpoint_witness:
  \<open>unity_address sample_bridge = None \<and>
   unity_address (fst (listen_step sample_env sample_bridge (Datagram ''{"command": '' unity))) =
     Some unity\<close>
proof -
  have h1: "unity_address sample_bridge = None"
    by (simp add: sample_bridge_def init_def)
  have h2: "fst unity = pc_ip sample_bridge"
    by (simp add: unity_def sample_bridge_def init_def)
  have h3: \<open>\<forall>message. utf8_decode sample_env ''{"command": '' = Some message \<longrightarrow>
             (\<exists>e. json_loads sample_env message = Inl e)\<close>
    by (simp add: sample_env_def sample_texts_def surrogate_text_def)
  from malformed_datagram_sets_endpoint [OF h1 h2 h3] h1 show ?thesis by simp
qed

end
